theory Spec2Isabelle
  imports Main
begin

section \<open>GtkSymbolCheck.py: data model\<close>

text \<open>
  A version is the Python tuple \<open>(major, minor)\<close> of unbounded integers. A
  \<open>GtkSymbol\<close> object has the three attributes set by \<open>__init__\<close>.
\<close>

type_synonym version = "int \<times> int"

record GtkSymbol =
  symbol_name :: string
  minimum_gtk_version :: version
  maximum_gtk_version :: version

definition GtkSymbol_init :: "string \<Rightarrow> version \<Rightarrow> version \<Rightarrow> GtkSymbol" where
  "GtkSymbol_init name min_version max_version =
     \<lparr>symbol_name = name, minimum_gtk_version = min_version,
      maximum_gtk_version = max_version\<rparr>"

definition get_min :: "GtkSymbol \<Rightarrow> version" where
  "get_min self = minimum_gtk_version self"

definition get_max :: "GtkSymbol \<Rightarrow> version" where
  "get_max self = maximum_gtk_version self"

text \<open>
  \<open>check_version\<close> (lines 22-34): \<open>-1\<close> when the symbol is too new, \<open>1\<close> when the
  request is past the maximum, \<open>0\<close> otherwise.
\<close>

definition check_version :: "GtkSymbol \<Rightarrow> int \<Rightarrow> int \<Rightarrow> int" where
  "check_version self major_version minor_version =
     (case minimum_gtk_version self of (major, minor) \<Rightarrow>
        if major > major_version \<or> (major = major_version \<and> minor > minor_version)
        then - 1
        else (case maximum_gtk_version self of (major, minor) \<Rightarrow>
          if major < major_version \<or> minor < minor_version then 1 else 0))"

text \<open>
  The lexicographic order on versions, as the specification words it: first by
  major, then by minor.
\<close>

fun version_less :: "version \<Rightarrow> version \<Rightarrow> bool" where
  "version_less (a, b) (c, d) = (a < c \<or> (a = c \<and> b < d))"

definition version_le :: "version \<Rightarrow> version \<Rightarrow> bool" where
  "version_le v w = (version_less v w \<or> v = w)"

section \<open>String formatting\<close>

text \<open>
  Python's \<open>"%i"\<close> of an integer and \<open>str\<close> of a pair of integers. They give the
  dictionary keys (\<open>"%i.%i"\<close>) and the printed reports.
\<close>

definition digit_char :: "nat \<Rightarrow> char" where
  "digit_char d =
     (if d = 0 then CHR ''0'' else if d = 1 then CHR ''1'' else if d = 2 then CHR ''2''
      else if d = 3 then CHR ''3'' else if d = 4 then CHR ''4'' else if d = 5 then CHR ''5''
      else if d = 6 then CHR ''6'' else if d = 7 then CHR ''7'' else if d = 8 then CHR ''8''
      else CHR ''9'')"

function str_nat :: "nat \<Rightarrow> string" where
  "str_nat n = (if n < 10 then [digit_char n] else str_nat (n div 10) @ [digit_char (n mod 10)])"
  by pat_completeness auto
termination
  by (relation "measure (\<lambda>n. n)") auto

declare str_nat.simps [simp del]

definition str_int :: "int \<Rightarrow> string" where
  "str_int i = (if i < 0 then CHR ''-'' # str_nat (nat (- i)) else str_nat (nat i))"

definition version_key :: "int \<Rightarrow> int \<Rightarrow> string" where
  "version_key version_major version_minor =
     str_int version_major @ ''.'' @ str_int version_minor"

definition str_version :: "version \<Rightarrow> string" where
  "str_version v = (case v of (major, minor) \<Rightarrow>
     ''('' @ str_int major @ '', '' @ str_int minor @ '')'')"

section \<open>Dictionaries and exceptions\<close>

datatype error = KeyError

definition dict_getitem :: "('k \<rightharpoonup> 'v) \<Rightarrow> 'k \<Rightarrow> error + 'v" where
  "dict_getitem d k = (case d k of None \<Rightarrow> Inl KeyError | Some v \<Rightarrow> Inr v)"

type_synonym listing = "string \<rightharpoonup> string list"
type_synonym symbols = "string \<rightharpoonup> GtkSymbol"

section \<open>check_available_symbol\<close>

text \<open>
  \<open>check_available_symbol\<close> (lines 204-227) returns a boolean and prints at most one
  line. The model returns the boolean together with the lines printed. The
  \<open>try\<close> body fails only in the dictionary lookup; the \<open>except\<close> branch handles it.
  The module global \<open>hide_not_found\<close> is a parameter; the source's parameter
  \<open>symbol_name\<close> is written \<open>name\<close>, since the record field has that name.
\<close>

definition check_available_symbol ::
  "bool \<Rightarrow> symbols \<Rightarrow> string \<Rightarrow> int \<Rightarrow> int \<Rightarrow> bool \<times> string list" where
  "check_available_symbol hide_not_found self_symbols name major_version minor_version =
     (case dict_getitem self_symbols name of
        Inr symbol \<Rightarrow>
          (let result = check_version symbol major_version minor_version in
           if result = - 1 then
             (False, [''Symbol ['' @ name @ ''] was introduced in GTK '' @
                       str_version (get_min symbol)])
           else if result = 1 then
             (False, [''Symbol ['' @ name @ ''] has been deprecated since GTK '' @
                       str_version (get_max symbol)])
           else (True, []))
      | Inl e \<Rightarrow>
          if hide_not_found then (False, [])
          else (False, [''Symbol ['' @ name @ ''] was not found in the API documents'']))"

section \<open>get_symbols\<close>

text \<open>
  \<open>get_symbols\<close> (lines 172-202) reads the two dictionaries built by
  \<open>get_available_symbols\<close> and \<open>get_deprecated_symbols\<close>, which map each version key
  \<open>"3.0"\<close>, \<open>"3.2"\<close>, ..., \<open>"3.12"\<close> to a list of symbol names. They are the inputs of
  the model, and so is the module global \<open>gtk_major_version\<close> read at line 198.
\<close>

fun intro_symbols :: "int \<Rightarrow> int \<Rightarrow> symbols \<Rightarrow> string list \<Rightarrow> symbols" where
  "intro_symbols version_major version_minor symbols [] = symbols"
| "intro_symbols version_major version_minor symbols (symbol # rest) =
     intro_symbols version_major version_minor
       (if symbols symbol = None
        then symbols(symbol \<mapsto> GtkSymbol_init symbol (version_major, version_minor) (3, 12))
        else symbols)
       rest"

function intro_loop :: "listing \<Rightarrow> int \<Rightarrow> int \<Rightarrow> symbols \<Rightarrow> error + symbols" where
  "intro_loop available version_major version_minor symbols =
     (if version_minor \<le> 12 then
        (case dict_getitem available (version_key version_major version_minor) of
           Inl e \<Rightarrow> Inl e
         | Inr names \<Rightarrow>
             intro_loop available version_major (version_minor + 2)
               (intro_symbols version_major version_minor symbols names))
      else Inr symbols)"
  by pat_completeness auto
termination
  by (relation "measure (\<lambda>(available, version_major, version_minor, symbols).
        nat (13 - version_minor))") auto

declare intro_loop.simps [simp del]

fun deprec_symbols :: "int \<Rightarrow> int \<Rightarrow> int \<Rightarrow> symbols \<Rightarrow> string list \<Rightarrow> symbols" where
  "deprec_symbols gtk_major_version version_major version_minor symbols [] = symbols"
| "deprec_symbols gtk_major_version version_major version_minor symbols (symbol # rest) =
     deprec_symbols gtk_major_version version_major version_minor
       (case symbols symbol of
          Some r \<Rightarrow>
            symbols(symbol \<mapsto> r\<lparr>maximum_gtk_version := (version_major, version_minor)\<rparr>)
        | None \<Rightarrow>
            symbols(symbol \<mapsto> GtkSymbol_init symbol (gtk_major_version, 0)
                                 (version_major, version_minor)))
       rest"

function deprec_loop :: "int \<Rightarrow> listing \<Rightarrow> int \<Rightarrow> int \<Rightarrow> symbols \<Rightarrow> error + symbols" where
  "deprec_loop gtk_major_version deprecated version_major version_minor symbols =
     (if version_minor \<le> 12 \<and> version_minor \<ge> 0 then
        (case dict_getitem deprecated (version_key version_major version_minor) of
           Inl e \<Rightarrow> Inl e
         | Inr names \<Rightarrow>
             deprec_loop gtk_major_version deprecated version_major (version_minor - 2)
               (deprec_symbols gtk_major_version version_major version_minor symbols names))
      else Inr symbols)"
  by pat_completeness auto
termination
  by (relation "measure (\<lambda>(gtk_major_version, deprecated, version_major, version_minor, symbols).
        nat (version_minor + 1))") auto

declare deprec_loop.simps [simp del]

definition get_symbols :: "int \<Rightarrow> listing \<Rightarrow> listing \<Rightarrow> error + symbols" where
  "get_symbols gtk_major_version available deprecated =
     (case intro_loop available 3 0 Map.empty of
        Inl e \<Rightarrow> Inl e
      | Inr symbols \<Rightarrow> deprec_loop gtk_major_version deprecated 3 12 symbols)"


section \<open>The known version series\<close>

text \<open>
  Both loops of \<open>get_symbols\<close> run over the minor versions \<open>0, 2, ..., 12\<close> of major
  version \<open>3\<close>: the first upwards from \<open>0\<close>, the second downwards from \<open>12\<close>.
  \<open>names_at d m\<close> is the listing the dictionary \<open>d\<close> holds for version \<open>3.m\<close>, and
  \<open>has_keys d\<close> says that \<open>d\<close> has all seven keys, as the dictionaries returned by
  \<open>get_available_symbols\<close> and \<open>get_deprecated_symbols\<close> do (lines 142-152 and
  159-169 assign every key of the series).
\<close>

definition known_minors :: "int list" where
  "known_minors = [0, 2, 4, 6, 8, 10, 12]"

definition names_at :: "listing \<Rightarrow> int \<Rightarrow> string list" where
  "names_at d m = (case d (version_key 3 m) of Some names \<Rightarrow> names | None \<Rightarrow> [])"

definition has_keys :: "listing \<Rightarrow> bool" where
  "has_keys d = list_all (\<lambda>m. d (version_key 3 m) \<noteq> None) known_minors"

definition first_listed :: "listing \<Rightarrow> string \<Rightarrow> int option" where
  "first_listed d s = find (\<lambda>m. s \<in> set (names_at d m)) known_minors"

definition lookup_record :: "error + symbols \<Rightarrow> string \<Rightarrow> GtkSymbol option" where
  "lookup_record res s = (case res of Inl e \<Rightarrow> None | Inr db \<Rightarrow> db s)"

subsection \<open>Example listings\<close>

definition example_available :: listing where
  "example_available = map_of
     [(''3.0'', [''gtk_widget_show'']), (''3.2'', []), (''3.4'', [''gtk_widget_show_all'']),
      (''3.6'', []), (''3.8'', []), (''3.10'', []), (''3.12'', [])]"

definition example_deprecated :: listing where
  "example_deprecated = map_of
     [(''3.0'', []), (''3.2'', [''gtk_old'']), (''3.4'', []), (''3.6'', [''gtk_old'']),
      (''3.8'', []), (''3.10'', [''gtk_widget_show_all'']),
      (''3.12'', [''gtk_widget_show_all''])]"

definition late_available :: listing where
  "late_available = map_of
     [(''3.0'', []), (''3.2'', []), (''3.4'', []), (''3.6'', []), (''3.8'', [''gtk_foo'']),
      (''3.10'', [''gtk_foo'']), (''3.12'', [''gtk_foo''])]"

definition early_deprecated :: listing where
  "early_deprecated = map_of
     [(''3.0'', []), (''3.2'', []), (''3.4'', [''gtk_foo'']), (''3.6'', []), (''3.8'', []),
      (''3.10'', []), (''3.12'', [])]"

section \<open>The loops as folds over the series\<close>

lemma key_vals: "version_key 3 0 = ''3.0''" "version_key 3 2 = ''3.2''" "version_key 3 4 = ''3.4''"
  "version_key 3 6 = ''3.6''" "version_key 3 8 = ''3.8''" "version_key 3 10 = ''3.10''"
  "version_key 3 12 = ''3.12''"
  by (simp_all add: version_key_def str_int_def str_nat.simps digit_char_def)


lemma intro_loop_unfold:
  "has_keys d \<Longrightarrow> intro_loop d 3 0 syms =
     Inr (foldl (\<lambda>acc m. intro_symbols 3 m acc (names_at d m)) syms known_minors)"
  by (auto simp add: has_keys_def known_minors_def intro_loop.simps dict_getitem_def names_at_def)

lemma deprec_loop_unfold:
  "has_keys d \<Longrightarrow> deprec_loop g d 3 12 syms =
     Inr (foldl (\<lambda>acc m. deprec_symbols g 3 m acc (names_at d m)) syms (rev known_minors))"
  by (auto simp add: has_keys_def known_minors_def deprec_loop.simps dict_getitem_def names_at_def)

lemma intro_symbols_lookup:
  "intro_symbols vM vm syms xs s =
     (case syms s of Some r \<Rightarrow> Some r
      | None \<Rightarrow> if s \<in> set xs then Some (GtkSymbol_init s (vM, vm) (3, 12)) else None)"
  by (induction xs arbitrary: syms) (auto split: option.splits)

lemma deprec_symbols_lookup:
  "deprec_symbols g vM vm syms xs s =
     (if s \<in> set xs then
        Some (case syms s of Some r \<Rightarrow> r\<lparr>maximum_gtk_version := (vM, vm)\<rparr>
              | None \<Rightarrow> GtkSymbol_init s (g, 0) (vM, vm))
      else syms s)"
  by (induction xs arbitrary: syms) (auto split: option.splits simp: GtkSymbol_init_def)


lemma fold_intro_lookup:
  "foldl (\<lambda>acc m. intro_symbols vM m acc (names_at d m)) syms ms s =
     (case syms s of Some r \<Rightarrow> Some r
      | None \<Rightarrow> (case find (\<lambda>m. s \<in> set (names_at d m)) ms of
                   Some k \<Rightarrow> Some (GtkSymbol_init s (vM, k) (3, 12))
                 | None \<Rightarrow> None))"
proof (induction ms arbitrary: syms)
  case Nil
  then show ?case by (simp split: option.splits)
next
  case (Cons m ms)
  let ?f = "\<lambda>acc m. intro_symbols vM m acc (names_at d m)"
  have "foldl ?f syms (m # ms) s = foldl ?f (intro_symbols vM m syms (names_at d m)) ms s"
    by simp
  also have "\<dots> = (case intro_symbols vM m syms (names_at d m) s of Some r \<Rightarrow> Some r
      | None \<Rightarrow> (case find (\<lambda>m. s \<in> set (names_at d m)) ms of
                   Some k \<Rightarrow> Some (GtkSymbol_init s (vM, k) (3, 12))
                 | None \<Rightarrow> None))"
    by (rule Cons.IH)
  also have "\<dots> = (case syms s of Some r \<Rightarrow> Some r
      | None \<Rightarrow> (case find (\<lambda>m. s \<in> set (names_at d m)) (m # ms) of
                   Some k \<Rightarrow> Some (GtkSymbol_init s (vM, k) (3, 12))
                 | None \<Rightarrow> None))"
    unfolding intro_symbols_lookup by (simp split: option.splits)
  finally show ?case .
qed

lemma fold_deprec_lookup:
  "foldl (\<lambda>acc m. deprec_symbols g vM m acc (names_at d m)) syms ds s =
     (case find (\<lambda>m. s \<in> set (names_at d m)) (rev ds) of
        None \<Rightarrow> syms s
      | Some k \<Rightarrow> Some (case syms s of Some r \<Rightarrow> r\<lparr>maximum_gtk_version := (vM, k)\<rparr>
                        | None \<Rightarrow> GtkSymbol_init s (g, 0) (vM, k)))"
proof (induction ds rule: rev_induct)
  case Nil
  then show ?case by simp
next
  case (snoc m ds)
  let ?f = "\<lambda>acc m. deprec_symbols g vM m acc (names_at d m)"
  let ?db = "foldl ?f syms ds"
  have "foldl ?f syms (ds @ [m]) s = deprec_symbols g vM m ?db (names_at d m) s"
    by simp
  also have "\<dots> = (if s \<in> set (names_at d m) then
        Some (case ?db s of Some r \<Rightarrow> r\<lparr>maximum_gtk_version := (vM, m)\<rparr>
              | None \<Rightarrow> GtkSymbol_init s (g, 0) (vM, m))
      else ?db s)"
    by (rule deprec_symbols_lookup)
  also have "\<dots> = (case find (\<lambda>m. s \<in> set (names_at d m)) (rev (ds @ [m])) of
        None \<Rightarrow> syms s
      | Some k \<Rightarrow> Some (case syms s of Some r \<Rightarrow> r\<lparr>maximum_gtk_version := (vM, k)\<rparr>
                        | None \<Rightarrow> GtkSymbol_init s (g, 0) (vM, k)))"
    unfolding snoc.IH by (simp add: GtkSymbol_init_def split: option.splits)
  finally show ?case .
qed

lemma get_symbols_lookup:
  assumes "has_keys available" "has_keys deprecated"
  shows "\<exists>db. get_symbols g available deprecated = Inr db \<and>
     (\<forall>s. db s =
        (case first_listed deprecated s of
           None \<Rightarrow> (case first_listed available s of
                       Some k \<Rightarrow> Some (GtkSymbol_init s (3, k) (3, 12))
                     | None \<Rightarrow> None)
         | Some j \<Rightarrow> Some (case first_listed available s of
                       Some k \<Rightarrow> GtkSymbol_init s (3, k) (3, j)
                     | None \<Rightarrow> GtkSymbol_init s (g, 0) (3, j))))"
  using assms
  by (simp add: get_symbols_def intro_loop_unfold deprec_loop_unfold fold_intro_lookup
      fold_deprec_lookup first_listed_def GtkSymbol_init_def split: option.splits)

lemma find_earliest:
  "sorted_wrt (<) ms \<Longrightarrow> m \<in> set ms \<Longrightarrow> P m \<Longrightarrow> (\<forall>k\<in>set ms. k < m \<longrightarrow> \<not> P k)
     \<Longrightarrow> find P ms = Some (m::int)"
  by (induction ms) auto

lemma find_none: "(\<forall>k\<in>set ms. \<not> P k) \<Longrightarrow> find P ms = None"
  by (induction ms) auto



subsection \<open>The first version of the series that lists a symbol\<close>

lemma sorted_known_minors: "sorted_wrt (<) known_minors"
  by (simp add: known_minors_def)

lemma first_listed_earliest:
  "m \<in> set known_minors \<Longrightarrow> s \<in> set (names_at d m) \<Longrightarrow>
   \<forall>k\<in>set known_minors. k < m \<longrightarrow> s \<notin> set (names_at d k) \<Longrightarrow>
   first_listed d s = Some m"
  unfolding first_listed_def
  by (rule find_earliest [OF sorted_known_minors]) auto

lemma first_listed_none:
  "\<forall>k\<in>set known_minors. s \<notin> set (names_at d k) \<Longrightarrow> first_listed d s = None"
  unfolding first_listed_def by (rule find_none) auto

lemma first_listed_in:
  "first_listed d s = Some m \<Longrightarrow> m \<in> set known_minors \<and> s \<in> set (names_at d m)"
  unfolding first_listed_def by (auto simp: find_Some_iff)

lemma find_least:
  "sorted_wrt (<) ms \<Longrightarrow> find P ms = Some (m::int) \<Longrightarrow> k \<in> set ms \<Longrightarrow> P k \<Longrightarrow> m \<le> k"
  by (induction ms) (auto split: if_splits)

lemma first_listed_le:
  "first_listed d s = Some m \<Longrightarrow> k \<in> set known_minors \<Longrightarrow> s \<in> set (names_at d k) \<Longrightarrow> m \<le> k"
  unfolding first_listed_def
  by (rule find_least [OF sorted_known_minors, where P = "\<lambda>m. s \<in> set (names_at d m)"])

lemma first_listed_None_iff:
  "first_listed d s = None \<longleftrightarrow> (\<forall>k\<in>set known_minors. s \<notin> set (names_at d k))"
  unfolding first_listed_def by (auto simp: find_None_iff)

lemma known_minors_bounds: "k \<in> set known_minors \<Longrightarrow> 0 \<le> k \<and> k \<le> 12"
  by (auto simp: known_minors_def)

lemma lookup_record_get_symbols:
  assumes "has_keys available" "has_keys deprecated"
  shows "lookup_record (get_symbols g available deprecated) s =
        (case first_listed deprecated s of
           None \<Rightarrow> (case first_listed available s of
                       Some k \<Rightarrow> Some (GtkSymbol_init s (3, k) (3, 12))
                     | None \<Rightarrow> None)
         | Some j \<Rightarrow> Some (case first_listed available s of
                       Some k \<Rightarrow> GtkSymbol_init s (3, k) (3, j)
                     | None \<Rightarrow> GtkSymbol_init s (g, 0) (3, j)))"
proof -
  obtain db where "get_symbols g available deprecated = Inr db"
    and "db s =
        (case first_listed deprecated s of
           None \<Rightarrow> (case first_listed available s of
                       Some k \<Rightarrow> Some (GtkSymbol_init s (3, k) (3, 12))
                     | None \<Rightarrow> None)
         | Some j \<Rightarrow> Some (case first_listed available s of
                       Some k \<Rightarrow> GtkSymbol_init s (3, k) (3, j)
                     | None \<Rightarrow> GtkSymbol_init s (g, 0) (3, j)))"
    using get_symbols_lookup [OF assms, of g] by blast
  then show ?thesis by (simp add: lookup_record_def)
qed

lemma intro_loop_cong:
  assumes "\<forall>k\<in>set known_minors. d (version_key 3 k) = d' (version_key 3 k)"
  shows "intro_loop d 3 0 syms = intro_loop d' 3 0 syms"
  using assms
  by (simp add: intro_loop.simps [of d] intro_loop.simps [of d'] known_minors_def dict_getitem_def
      split: option.splits)

lemma deprec_loop_cong:
  assumes "\<forall>k\<in>set known_minors. d (version_key 3 k) = d' (version_key 3 k)"
  shows "deprec_loop g d 3 12 syms = deprec_loop g d' 3 12 syms"
  using assms
  by (simp add: deprec_loop.simps [of g d] deprec_loop.simps [of g d'] known_minors_def dict_getitem_def
      split: option.splits)

subsection \<open>The example listings evaluated\<close>

lemma example_keys:
  "has_keys example_available" "has_keys example_deprecated"
  "has_keys late_available" "has_keys early_deprecated"
  by (simp_all add: has_keys_def known_minors_def key_vals example_available_def
      example_deprecated_def late_available_def early_deprecated_def)

lemma example_first_listed:
  "first_listed example_available ''gtk_widget_show'' = Some 0"
  "first_listed example_deprecated ''gtk_widget_show'' = None"
  "first_listed example_available ''gtk_widget_show_all'' = Some 4"
  "first_listed example_deprecated ''gtk_widget_show_all'' = Some 10"
  "first_listed example_available ''gtk_old'' = None"
  "first_listed example_deprecated ''gtk_old'' = Some 2"
  "first_listed example_available ''gtk_missing'' = None"
  "first_listed example_deprecated ''gtk_missing'' = None"
  "first_listed late_available ''gtk_foo'' = Some 8"
  "first_listed early_deprecated ''gtk_foo'' = Some 4"
  by (simp_all add: first_listed_def known_minors_def names_at_def key_vals
      example_available_def example_deprecated_def late_available_def early_deprecated_def)

section \<open>Classification of a version against a record\<close>

lemma check_version_range: "check_version self major_version minor_version \<in> {- 1, 0, 1}"
  by (cases "minimum_gtk_version self"; cases "maximum_gtk_version self")
     (auto simp: check_version_def)

text \<open>
  C1. For a queried version that is not strictly below the record's minimum version,
  \<open>check_version\<close> returns \<open>1\<close> (deprecated) exactly when the queried major exceeds the
  maximum's major or the queried minor exceeds the maximum's minor, the two components
  compared independently; otherwise it returns \<open>0\<close> (valid).
\<close>

theorem check_version_deprecated_rule:
  "\<not> version_less (major_version, minor_version) (minimum_gtk_version self) \<Longrightarrow>
   check_version self major_version minor_version =
     (if fst (maximum_gtk_version self) < major_version
         \<or> snd (maximum_gtk_version self) < minor_version
      then 1 else 0)"
  by (cases "minimum_gtk_version self"; cases "maximum_gtk_version self")
     (auto simp: check_version_def)

text \<open>
  At the range \<open>(3, 0)\<close> to \<open>(4, 6)\<close> the query \<open>(3, 8)\<close> is below the maximum in the
  lexicographic order and is deprecated all the same, by its minor component.
\<close>

theorem check_version_deprecated_rule_witness:
  "\<not> version_less (3, 8) (minimum_gtk_version (GtkSymbol_init ''gtk_foo'' (3, 0) (4, 6)))
   \<and> version_less (3, 8) (maximum_gtk_version (GtkSymbol_init ''gtk_foo'' (3, 0) (4, 6)))
   \<and> check_version (GtkSymbol_init ''gtk_foo'' (3, 0) (4, 6)) 3 8 = 1"
  using check_version_deprecated_rule [of 3 8 "GtkSymbol_init ''gtk_foo'' (3, 0) (4, 6)"]
  by (simp add: GtkSymbol_init_def)

text \<open>
  C2. \<open>check_version\<close> returns \<open>-1\<close> (too new) exactly when the queried version is
  strictly below the record's minimum version in the lexicographic order. The result
  depends on the record and the two numbers only: the function reads nothing else and
  writes nothing.
\<close>

theorem check_version_too_new:
  "(check_version self major_version minor_version = - 1) =
     version_less (major_version, minor_version) (minimum_gtk_version self)"
  by (cases "minimum_gtk_version self"; cases "maximum_gtk_version self")
     (auto simp: check_version_def)

theorem check_version_too_new_witness:
  "check_version (GtkSymbol_init ''gtk_widget_show_all'' (3, 4) (3, 10)) 3 2 = - 1
   \<and> version_less (3, 2) (3, 4)"
  using check_version_too_new [of "GtkSymbol_init ''gtk_widget_show_all'' (3, 4) (3, 10)" 3 2]
  by (simp add: GtkSymbol_init_def)

section \<open>The compliance check\<close>

text \<open>
  C10. \<open>check_available_symbol\<close> returns \<open>True\<close> exactly when the symbol has a record
  and \<open>check_version\<close> classifies the target as valid (\<open>0\<close>). The flag
  \<open>hide_not_found\<close> changes nothing but the printed report of an absent symbol: the
  boolean is the one returned without the flag, which is \<open>False\<close> for an absent symbol.
\<close>

theorem check_available_symbol_result:
  "(fst (check_available_symbol hide_not_found db name major_version minor_version) \<longleftrightarrow>
      (\<exists>r. db name = Some r \<and> check_version r major_version minor_version = 0))
   \<and> check_available_symbol hide_not_found db name major_version minor_version =
       (fst (check_available_symbol False db name major_version minor_version),
        if hide_not_found \<and> db name = None then []
        else snd (check_available_symbol False db name major_version minor_version))
   \<and> (db name = None \<longrightarrow>
        check_available_symbol False db name major_version minor_version =
          (False, [''Symbol ['' @ name @ ''] was not found in the API documents'']))"
  using check_version_range [of _ major_version minor_version]
  by (auto simp: check_available_symbol_def dict_getitem_def Let_def split: option.splits)

theorem check_available_symbol_result_witness:
  "(Map.empty :: symbols) ''gtk_missing'' = None
   \<and> check_available_symbol True Map.empty ''gtk_missing'' 3 12 = (False, [])
   \<and> check_available_symbol False Map.empty ''gtk_missing'' 3 12 =
       (False, [''Symbol [gtk_missing] was not found in the API documents''])"
  using check_available_symbol_result [of True Map.empty "''gtk_missing''" 3 12]
  by simp

section \<open>Database construction\<close>

text \<open>
  C3. A symbol that some available listing contains gets a record whose minimum
  version is the earliest version \<open>3.m\<close> of the series whose available listing
  contains it. The record does not depend on the available listings of later versions:
  any dictionary that agrees with \<open>available\<close> up to \<open>3.m\<close> yields the same record.
  The database is a dictionary, so a name has one record.
\<close>

theorem get_symbols_min_first_seen:
  assumes "has_keys available" "has_keys deprecated"
    and "m \<in> set known_minors" "s \<in> set (names_at available m)"
    and "\<forall>k\<in>set known_minors. k < m \<longrightarrow> s \<notin> set (names_at available k)"
  shows "\<exists>db r. get_symbols g available deprecated = Inr db \<and> db s = Some r
           \<and> symbol_name r = s \<and> minimum_gtk_version r = (3, m)
           \<and> (\<forall>available'. has_keys available'
                 \<and> (\<forall>k\<in>set known_minors. k \<le> m \<longrightarrow>
                       names_at available' k = names_at available k)
               \<longrightarrow> (\<exists>db'. get_symbols g available' deprecated = Inr db' \<and> db' s = Some r))"
proof -
  have first: "first_listed available s = Some m"
    using assms(3-5) by (rule first_listed_earliest)
  obtain db where db: "get_symbols g available deprecated = Inr db"
    and look: "\<And>x. db x =
        (case first_listed deprecated x of
           None \<Rightarrow> (case first_listed available x of
                       Some k \<Rightarrow> Some (GtkSymbol_init x (3, k) (3, 12))
                     | None \<Rightarrow> None)
         | Some j \<Rightarrow> Some (case first_listed available x of
                       Some k \<Rightarrow> GtkSymbol_init x (3, k) (3, j)
                     | None \<Rightarrow> GtkSymbol_init x (g, 0) (3, j)))"
    using get_symbols_lookup [OF assms(1,2), of g] by blast
  obtain r where r: "db s = Some r" "symbol_name r = s" "minimum_gtk_version r = (3, m)"
    using look [of s] first by (auto simp: GtkSymbol_init_def split: option.splits)
  have "\<exists>db'. get_symbols g available' deprecated = Inr db' \<and> db' s = Some r"
    if keys': "has_keys available'"
      and same: "\<forall>k\<in>set known_minors. k \<le> m \<longrightarrow> names_at available' k = names_at available k"
    for available'
  proof -
    have first': "first_listed available' s = Some m"
    proof (rule first_listed_earliest [OF assms(3)])
      show "s \<in> set (names_at available' m)" using same assms(3,4) by simp
      show "\<forall>k\<in>set known_minors. k < m \<longrightarrow> s \<notin> set (names_at available' k)"
        using same assms(5) by simp
    qed
    obtain db' where db': "get_symbols g available' deprecated = Inr db'"
      and look': "db' s =
        (case first_listed deprecated s of
           None \<Rightarrow> (case first_listed available' s of
                       Some k \<Rightarrow> Some (GtkSymbol_init s (3, k) (3, 12))
                     | None \<Rightarrow> None)
         | Some j \<Rightarrow> Some (case first_listed available' s of
                       Some k \<Rightarrow> GtkSymbol_init s (3, k) (3, j)
                     | None \<Rightarrow> GtkSymbol_init s (g, 0) (3, j)))"
      using get_symbols_lookup [OF keys' assms(2), of g] by blast
    have "db' s = db s"
      unfolding look' look [of s] first first' ..
    with db' r(1) show ?thesis by simp
  qed
  with db r show ?thesis by blast
qed

theorem get_symbols_min_first_seen_witness:
  "has_keys example_available \<and> has_keys example_deprecated \<and> 4 \<in> set known_minors
   \<and> ''gtk_widget_show_all'' \<in> set (names_at example_available 4)
   \<and> (\<exists>db r. get_symbols 3 example_available example_deprecated = Inr db
         \<and> db ''gtk_widget_show_all'' = Some r \<and> minimum_gtk_version r = (3, 4))"
proof -
  have h3: "4 \<in> set known_minors"
    by (simp add: known_minors_def)
  have h4: "''gtk_widget_show_all'' \<in> set (names_at example_available 4)"
    by (simp add: names_at_def key_vals example_available_def)
  have h5: "\<forall>k\<in>set known_minors. k < 4 \<longrightarrow>
      ''gtk_widget_show_all'' \<notin> set (names_at example_available k)"
    by (simp add: known_minors_def names_at_def key_vals example_available_def)
  from get_symbols_min_first_seen [OF example_keys(1,2) h3 h4 h5, of 3]
  obtain db r where "get_symbols 3 example_available example_deprecated = Inr db"
    "db ''gtk_widget_show_all'' = Some r" "minimum_gtk_version r = (3, 4)"
    by blast
  with example_keys(1,2) h3 h4 show ?thesis by blast
qed

text \<open>
  C4. For a symbol that has a record \<open>r0\<close> after the introduction pass and that some
  deprecated listing names, the deprecation pass (from \<open>3.12\<close> down to \<open>3.0\<close>) leaves
  a record whose maximum version is the oldest version \<open>3.j\<close> whose deprecated listing
  names the symbol; the rest of the record is unchanged.
\<close>

theorem deprecation_pass_oldest:
  assumes "has_keys deprecated"
    and "intro_loop available 3 0 Map.empty = Inr db0" "db0 s = Some r0"
    and "j \<in> set known_minors" "s \<in> set (names_at deprecated j)"
    and "\<forall>k\<in>set known_minors. k < j \<longrightarrow> s \<notin> set (names_at deprecated k)"
  shows "\<exists>db r. deprec_loop g deprecated 3 12 db0 = Inr db
           \<and> get_symbols g available deprecated = Inr db
           \<and> db s = Some r \<and> maximum_gtk_version r = (3, j)
           \<and> r = r0\<lparr>maximum_gtk_version := (3, j)\<rparr>"
proof -
  let ?db = "foldl (\<lambda>acc m. deprec_symbols g 3 m acc (names_at deprecated m)) db0
               (rev known_minors)"
  have loop: "deprec_loop g deprecated 3 12 db0 = Inr ?db"
    using assms(1) by (rule deprec_loop_unfold)
  have first: "find (\<lambda>m. s \<in> set (names_at deprecated m)) (rev (rev known_minors)) = Some j"
    using first_listed_earliest [OF assms(4-6)] by (simp add: first_listed_def)
  have "?db s = Some (r0\<lparr>maximum_gtk_version := (3, j)\<rparr>)"
    unfolding fold_deprec_lookup first using assms(3) by simp
  moreover have "get_symbols g available deprecated = Inr ?db"
    by (simp add: get_symbols_def assms(2) loop)
  ultimately show ?thesis using loop by simp
qed

theorem deprecation_pass_oldest_witness:
  "has_keys example_deprecated \<and> 10 \<in> set known_minors
   \<and> ''gtk_widget_show_all'' \<in> set (names_at example_deprecated 10)
   \<and> ''gtk_widget_show_all'' \<in> set (names_at example_deprecated 12)
   \<and> (\<exists>db0 r0 db r. intro_loop example_available 3 0 Map.empty = Inr db0
         \<and> db0 ''gtk_widget_show_all'' = Some r0
         \<and> get_symbols 3 example_available example_deprecated = Inr db
         \<and> db ''gtk_widget_show_all'' = Some r \<and> maximum_gtk_version r = (3, 10))"
proof -
  let ?s = "''gtk_widget_show_all''"
  let ?db0 = "foldl (\<lambda>acc m. intro_symbols 3 m acc (names_at example_available m)) Map.empty
                known_minors"
  have h2: "intro_loop example_available 3 0 Map.empty = Inr ?db0"
    using example_keys(1) by (rule intro_loop_unfold)
  have h3: "?db0 ?s = Some (GtkSymbol_init ?s (3, 4) (3, 12))"
    unfolding fold_intro_lookup
    using example_first_listed(3) by (simp add: first_listed_def)
  have h4: "10 \<in> set known_minors"
    by (simp add: known_minors_def)
  have h5: "?s \<in> set (names_at example_deprecated 10)"
    by (simp add: names_at_def key_vals example_deprecated_def)
  have h5': "?s \<in> set (names_at example_deprecated 12)"
    by (simp add: names_at_def key_vals example_deprecated_def)
  have h6: "\<forall>k\<in>set known_minors. k < 10 \<longrightarrow> ?s \<notin> set (names_at example_deprecated k)"
    by (simp add: known_minors_def names_at_def key_vals example_deprecated_def)
  from deprecation_pass_oldest [OF example_keys(2) h2 h3 h4 h5 h6, of 3]
  obtain db r where "get_symbols 3 example_available example_deprecated = Inr db"
    "db ?s = Some r" "maximum_gtk_version r = (3, 10)"
    by blast
  with example_keys(2) h2 h3 h4 h5 h5' show ?thesis by blast
qed

text \<open>
  A symbol that only deprecated listings name is inserted at line 197 with the minimum
  version \<open>(gtk_major_version, 0)\<close>. \<open>gtk_major_version\<close> is the module global that holds
  the major number of the target version: \<open>3\<close> by default, overwritten at line 339 from
  the option \<open>--gtk_version\<close> before the database is built.
\<close>

lemma deprecated_only_record:
  assumes "has_keys available" "has_keys deprecated"
    and "\<forall>k\<in>set known_minors. s \<notin> set (names_at available k)"
    and "j \<in> set known_minors" "s \<in> set (names_at deprecated j)"
    and "\<forall>k\<in>set known_minors. k < j \<longrightarrow> s \<notin> set (names_at deprecated k)"
  shows "lookup_record (get_symbols g available deprecated) s =
           Some (GtkSymbol_init s (g, 0) (3, j))"
  using first_listed_none [OF assms(3)] first_listed_earliest [OF assms(4-6)]
  by (simp add: lookup_record_get_symbols [OF assms(1,2)])

text \<open>
  C5. The claim: a symbol named by a deprecated listing and by no available listing has
  one record, with the base version \<open>(3, 0)\<close> of the series as minimum version and the
  oldest deprecating version as maximum version. With the target version \<open>4.0\<close>
  (\<open>gtk_major_version = 4\<close>) the record of \<open>gtk_old\<close>, deprecated in \<open>3.2\<close> and \<open>3.6\<close>
  and never listed as available, has the minimum version \<open>(4, 0)\<close>, not \<open>(3, 0)\<close>.
\<close>

theorem deprecated_only_min_at_major_4:
  "lookup_record (get_symbols 4 example_available example_deprecated) ''gtk_old'' =
     Some \<lparr>symbol_name = ''gtk_old'', minimum_gtk_version = (4, 0),
           maximum_gtk_version = (3, 2)\<rparr>"
  by (simp add: lookup_record_get_symbols [OF example_keys(1,2)] example_first_listed
      GtkSymbol_init_def)

text \<open>
  C6. A name that no available and no deprecated listing of the series contains has no
  record, and for every target version \<open>check_available_symbol\<close> returns normally
  with \<open>False\<close>, through its \<open>except\<close> branch: it prints the not-found line, or nothing
  when \<open>hide_not_found\<close> is set. The construction returns a database as well.
\<close>

theorem absent_symbol_unknown:
  assumes "has_keys available" "has_keys deprecated"
    and "\<forall>k\<in>set known_minors. s \<notin> set (names_at available k)
                              \<and> s \<notin> set (names_at deprecated k)"
  shows "\<exists>db. get_symbols g available deprecated = Inr db \<and> db s = None
           \<and> check_available_symbol hide_not_found db s major_version minor_version =
               (False, if hide_not_found then []
                       else [''Symbol ['' @ s @ ''] was not found in the API documents''])"
proof -
  have none: "first_listed available s = None" "first_listed deprecated s = None"
    using assms(3) by (simp_all add: first_listed_none)
  obtain db where db: "get_symbols g available deprecated = Inr db"
    and look: "db s =
        (case first_listed deprecated s of
           None \<Rightarrow> (case first_listed available s of
                       Some k \<Rightarrow> Some (GtkSymbol_init s (3, k) (3, 12))
                     | None \<Rightarrow> None)
         | Some j \<Rightarrow> Some (case first_listed available s of
                       Some k \<Rightarrow> GtkSymbol_init s (3, k) (3, j)
                     | None \<Rightarrow> GtkSymbol_init s (g, 0) (3, j)))"
    using get_symbols_lookup [OF assms(1,2), of g] by blast
  have "db s = None" using look none by simp
  then show ?thesis using db
    by (simp add: check_available_symbol_def dict_getitem_def)
qed

theorem absent_symbol_unknown_witness:
  "has_keys example_available \<and> has_keys example_deprecated
   \<and> (\<exists>db. get_symbols 3 example_available example_deprecated = Inr db
         \<and> db ''gtk_missing'' = None
         \<and> check_available_symbol False db ''gtk_missing'' 3 12 =
             (False, [''Symbol [gtk_missing] was not found in the API documents'']))"
proof -
  have h3: "\<forall>k\<in>set known_minors. ''gtk_missing'' \<notin> set (names_at example_available k)
                              \<and> ''gtk_missing'' \<notin> set (names_at example_deprecated k)"
    by (simp add: known_minors_def names_at_def key_vals example_available_def
        example_deprecated_def)
  from absent_symbol_unknown [OF example_keys(1,2) h3, of 3 False 3 12]
  show ?thesis using example_keys(1,2) by simp
qed

text \<open>
  C7. A symbol in the available listing of the base version \<open>3.0\<close> that no deprecated
  listing names is classified valid at every version \<open>3.m\<close> of the series:
  \<open>check_version\<close> gives \<open>0\<close> and \<open>check_available_symbol\<close> returns \<open>True\<close> and prints
  nothing.
\<close>

theorem base_symbol_always_valid:
  assumes "has_keys available" "has_keys deprecated"
    and "s \<in> set (names_at available 0)"
    and "\<forall>k\<in>set known_minors. s \<notin> set (names_at deprecated k)"
  shows "\<exists>db r. get_symbols g available deprecated = Inr db \<and> db s = Some r
           \<and> (\<forall>m\<in>set known_minors. check_version r 3 m = 0
                 \<and> check_available_symbol hide_not_found db s 3 m = (True, []))"
proof -
  have first: "first_listed available s = Some 0"
    using assms(3) by (intro first_listed_earliest) (auto simp: known_minors_def)
  have none: "first_listed deprecated s = None"
    using assms(4) by (rule first_listed_none)
  obtain db where db: "get_symbols g available deprecated = Inr db"
    and look: "db s =
        (case first_listed deprecated s of
           None \<Rightarrow> (case first_listed available s of
                       Some k \<Rightarrow> Some (GtkSymbol_init s (3, k) (3, 12))
                     | None \<Rightarrow> None)
         | Some j \<Rightarrow> Some (case first_listed available s of
                       Some k \<Rightarrow> GtkSymbol_init s (3, k) (3, j)
                     | None \<Rightarrow> GtkSymbol_init s (g, 0) (3, j)))"
    using get_symbols_lookup [OF assms(1,2), of g] by blast
  have rec: "db s = Some (GtkSymbol_init s (3, 0) (3, 12))"
    using look first none by simp
  have valid: "check_version (GtkSymbol_init s (3, 0) (3, 12)) 3 m = 0"
    if "m \<in> set known_minors" for m
    using that by (auto simp: known_minors_def check_version_def GtkSymbol_init_def)
  have "check_available_symbol hide_not_found db s 3 m = (True, [])"
    if "m \<in> set known_minors" for m
    using valid [OF that] rec
    by (simp add: check_available_symbol_def dict_getitem_def)
  with db rec valid show ?thesis by blast
qed

theorem base_symbol_always_valid_witness:
  "has_keys example_available \<and> has_keys example_deprecated
   \<and> ''gtk_widget_show'' \<in> set (names_at example_available 0)
   \<and> 6 \<in> set known_minors
   \<and> (\<exists>db r. get_symbols 3 example_available example_deprecated = Inr db
         \<and> db ''gtk_widget_show'' = Some r \<and> check_version r 3 6 = 0
         \<and> check_available_symbol False db ''gtk_widget_show'' 3 6 = (True, []))"
proof -
  have h3: "''gtk_widget_show'' \<in> set (names_at example_available 0)"
    by (simp add: names_at_def key_vals example_available_def)
  have h4: "\<forall>k\<in>set known_minors. ''gtk_widget_show'' \<notin> set (names_at example_deprecated k)"
    by (simp add: known_minors_def names_at_def key_vals example_deprecated_def)
  have h5: "6 \<in> set known_minors"
    by (simp add: known_minors_def)
  from base_symbol_always_valid [OF example_keys(1,2) h3 h4, of 3 False]
  obtain db r where "get_symbols 3 example_available example_deprecated = Inr db"
    "db ''gtk_widget_show'' = Some r"
    "\<forall>m\<in>set known_minors. check_version r 3 m = 0
        \<and> check_available_symbol False db ''gtk_widget_show'' 3 m = (True, [])"
    by blast
  with example_keys(1,2) h3 h5 show ?thesis by blast
qed

text \<open>
  What the construction reads. Of the two dictionaries it reads the listings at the
  seven keys of the series and nothing else. Besides the listings it reads the module
  global \<open>gtk_major_version\<close> (line 198), which reaches the records of the symbols
  that no available listing contains and no other record.
\<close>

lemma get_symbols_reads_series_keys:
  assumes "\<forall>k\<in>set known_minors. available (version_key 3 k) = available' (version_key 3 k)"
    and "\<forall>k\<in>set known_minors. deprecated (version_key 3 k) = deprecated' (version_key 3 k)"
  shows "get_symbols g available deprecated = get_symbols g available' deprecated'"
  unfolding get_symbols_def
  by (simp add: intro_loop_cong [OF assms(1)] deprec_loop_cong [OF assms(2)] split: sum.splits)

lemma available_record_ignores_major:
  assumes "has_keys available" "has_keys deprecated"
    and "k \<in> set known_minors" "s \<in> set (names_at available k)"
  shows "lookup_record (get_symbols g available deprecated) s =
         lookup_record (get_symbols g' available deprecated) s"
proof -
  have "first_listed available s \<noteq> None"
    using assms(3,4) by (auto simp: first_listed_None_iff)
  then obtain m where "first_listed available s = Some m"
    by blast
  then show ?thesis
    by (simp add: lookup_record_get_symbols [OF assms(1,2)] split: option.splits)
qed

text \<open>
  C8. The claim: building the database twice from identical available and deprecated
  listings yields identical records. The records also depend on \<open>gtk_major_version\<close>,
  the major number of the target version, which is no part of the listings: from the
  same listings, a run with the target \<open>3.12\<close> gives \<open>gtk_old\<close> the range \<open>(3, 0)\<close> to
  \<open>(3, 2)\<close> and a run with the target \<open>4.0\<close> gives it \<open>(4, 0)\<close> to \<open>(3, 2)\<close>, so the
  two databases differ.
\<close>

theorem same_listings_different_records:
  "lookup_record (get_symbols 3 example_available example_deprecated) ''gtk_old'' =
     Some \<lparr>symbol_name = ''gtk_old'', minimum_gtk_version = (3, 0),
           maximum_gtk_version = (3, 2)\<rparr>
   \<and> lookup_record (get_symbols 4 example_available example_deprecated) ''gtk_old'' =
     Some \<lparr>symbol_name = ''gtk_old'', minimum_gtk_version = (4, 0),
           maximum_gtk_version = (3, 2)\<rparr>
   \<and> get_symbols 3 example_available example_deprecated \<noteq>
       get_symbols 4 example_available example_deprecated"
proof -
  have r3: "lookup_record (get_symbols 3 example_available example_deprecated) ''gtk_old'' =
     Some \<lparr>symbol_name = ''gtk_old'', minimum_gtk_version = (3, 0),
           maximum_gtk_version = (3, 2)\<rparr>"
    by (simp add: lookup_record_get_symbols [OF example_keys(1,2)] example_first_listed
        GtkSymbol_init_def)
  have r4: "lookup_record (get_symbols 4 example_available example_deprecated) ''gtk_old'' =
     Some \<lparr>symbol_name = ''gtk_old'', minimum_gtk_version = (4, 0),
           maximum_gtk_version = (3, 2)\<rparr>"
    by (simp add: lookup_record_get_symbols [OF example_keys(1,2)] example_first_listed
        GtkSymbol_init_def)
  have "get_symbols 3 example_available example_deprecated \<noteq>
        get_symbols 4 example_available example_deprecated"
  proof
    assume "get_symbols 3 example_available example_deprecated =
            get_symbols 4 example_available example_deprecated"
    then have "lookup_record (get_symbols 3 example_available example_deprecated) ''gtk_old'' =
               lookup_record (get_symbols 4 example_available example_deprecated) ''gtk_old''"
      by simp
    with r3 r4 show False by simp
  qed
  with r3 r4 show ?thesis by blast
qed

text \<open>
  C9. The claim: every record of the finalized database has its minimum version at or
  below its maximum version. The listings are not checked against each other: a symbol
  first available in \<open>3.8\<close> that the deprecated listing of \<open>3.4\<close> names gets the range
  \<open>(3, 8)\<close> to \<open>(3, 4)\<close>.
\<close>

theorem inverted_range_counterexample:
  "lookup_record (get_symbols 3 late_available early_deprecated) ''gtk_foo'' =
     Some \<lparr>symbol_name = ''gtk_foo'', minimum_gtk_version = (3, 8),
           maximum_gtk_version = (3, 4)\<rparr>
   \<and> \<not> version_le (3, 8) (3, 4)"
  by (simp add: lookup_record_get_symbols [OF example_keys(3,4)] example_first_listed
      GtkSymbol_init_def version_le_def)

text \<open>
  C9, as amended. With \<open>gtk_major_version\<close> at its default \<open>3\<close>, a record of the
  finalized database has its minimum version at or below its maximum version exactly
  when its symbol is in no available listing, or every version whose deprecated listing
  names it is at or after some version whose available listing contains it.
\<close>

theorem finalized_range_ordered:
  assumes "has_keys available" "has_keys deprecated"
  shows "\<exists>db. get_symbols 3 available deprecated = Inr db \<and>
     (\<forall>s r. db s = Some r \<longrightarrow>
        (version_le (minimum_gtk_version r) (maximum_gtk_version r) \<longleftrightarrow>
          ((\<exists>k\<in>set known_minors. s \<in> set (names_at available k)) \<longrightarrow>
            (\<forall>j\<in>set known_minors. s \<in> set (names_at deprecated j) \<longrightarrow>
               (\<exists>k\<in>set known_minors. k \<le> j \<and> s \<in> set (names_at available k))))))"
proof -
  obtain db where db: "get_symbols 3 available deprecated = Inr db"
    and look: "\<And>s. db s =
        (case first_listed deprecated s of
           None \<Rightarrow> (case first_listed available s of
                       Some k \<Rightarrow> Some (GtkSymbol_init s (3, k) (3, 12))
                     | None \<Rightarrow> None)
         | Some j \<Rightarrow> Some (case first_listed available s of
                       Some k \<Rightarrow> GtkSymbol_init s (3, k) (3, j)
                     | None \<Rightarrow> GtkSymbol_init s (3, 0) (3, j)))"
    using get_symbols_lookup [OF assms, of 3] by blast
  have "version_le (minimum_gtk_version r) (maximum_gtk_version r) \<longleftrightarrow>
          ((\<exists>k\<in>set known_minors. s \<in> set (names_at available k)) \<longrightarrow>
            (\<forall>j\<in>set known_minors. s \<in> set (names_at deprecated j) \<longrightarrow>
               (\<exists>k\<in>set known_minors. k \<le> j \<and> s \<in> set (names_at available k))))"
    (is "?L \<longleftrightarrow> ?R")
    if rec: "db s = Some r" for s r
  proof (cases "first_listed available s")
    case None
    then have no_av: "\<forall>k\<in>set known_minors. s \<notin> set (names_at available k)"
      by (simp add: first_listed_None_iff)
    from rec look [of s] None obtain j where j: "first_listed deprecated s = Some j"
      and r: "r = GtkSymbol_init s (3, 0) (3, j)"
      by (auto split: option.splits)
    have "0 \<le> j" using first_listed_in [OF j] known_minors_bounds by blast
    then have ?L by (auto simp: r GtkSymbol_init_def version_le_def)
    moreover have ?R using no_av by blast
    ultimately show ?thesis by blast
  next
    case (Some k)
    note k = first_listed_in [OF Some]
    show ?thesis
    proof (cases "first_listed deprecated s")
      case None
      then have no_dep: "\<forall>j\<in>set known_minors. s \<notin> set (names_at deprecated j)"
        by (simp add: first_listed_None_iff)
      have r: "r = GtkSymbol_init s (3, k) (3, 12)"
        using rec look [of s] Some None by simp
      have "k \<le> 12" using k known_minors_bounds by blast
      then have ?L by (auto simp: r GtkSymbol_init_def version_le_def)
      moreover have ?R using no_dep by blast
      ultimately show ?thesis by blast
    next
      case (Some j)
      note j = first_listed_in [OF Some]
      have r: "r = GtkSymbol_init s (3, k) (3, j)"
        using rec look [of s] \<open>first_listed available s = Some k\<close> Some by simp
      have L: "?L \<longleftrightarrow> k \<le> j"
        by (auto simp: r GtkSymbol_init_def version_le_def)
      have "?R" if "k \<le> j"
      proof (intro impI ballI)
        fix j' assume "j' \<in> set known_minors" "s \<in> set (names_at deprecated j')"
        then have "j \<le> j'" using first_listed_le [OF Some] by blast
        with that k show "\<exists>k\<in>set known_minors. k \<le> j' \<and> s \<in> set (names_at available k)"
          by (intro bexI [of _ k]) auto
      qed
      moreover have "k \<le> j" if ?R
      proof -
        from that k j obtain k' where k': "k' \<in> set known_minors" "k' \<le> j"
          "s \<in> set (names_at available k')"
          by blast
        have "k \<le> k'"
          using first_listed_le [OF \<open>first_listed available s = Some k\<close> k'(1,3)] .
        with k'(2) show ?thesis by simp
      qed
      ultimately show ?thesis using L by blast
    qed
  qed
  with db show ?thesis by blast
qed

theorem finalized_range_ordered_witness:
  "has_keys example_available \<and> has_keys example_deprecated
   \<and> (\<exists>db r. get_symbols 3 example_available example_deprecated = Inr db
         \<and> db ''gtk_widget_show_all'' = Some r
         \<and> version_le (minimum_gtk_version r) (maximum_gtk_version r))"
proof -
  let ?s = "''gtk_widget_show_all''"
  from finalized_range_ordered [OF example_keys(1,2)]
  obtain db where db: "get_symbols 3 example_available example_deprecated = Inr db"
    and ord: "\<And>s r. db s = Some r \<Longrightarrow>
        (version_le (minimum_gtk_version r) (maximum_gtk_version r) \<longleftrightarrow>
          ((\<exists>k\<in>set known_minors. s \<in> set (names_at example_available k)) \<longrightarrow>
            (\<forall>j\<in>set known_minors. s \<in> set (names_at example_deprecated j) \<longrightarrow>
               (\<exists>k\<in>set known_minors. k \<le> j \<and> s \<in> set (names_at example_available k)))))"
    by blast
  have "lookup_record (get_symbols 3 example_available example_deprecated) ?s =
      Some (GtkSymbol_init ?s (3, 4) (3, 10))"
    by (simp add: lookup_record_get_symbols [OF example_keys(1,2)] example_first_listed)
  then have rec: "db ?s = Some (GtkSymbol_init ?s (3, 4) (3, 10))"
    by (simp add: db lookup_record_def)
  have cond: "(\<exists>k\<in>set known_minors. ?s \<in> set (names_at example_available k)) \<longrightarrow>
            (\<forall>j\<in>set known_minors. ?s \<in> set (names_at example_deprecated j) \<longrightarrow>
               (\<exists>k\<in>set known_minors. k \<le> j \<and> ?s \<in> set (names_at example_available k)))"
    by (simp add: known_minors_def names_at_def key_vals example_available_def
        example_deprecated_def)
  from ord [OF rec] cond
  have "version_le (minimum_gtk_version (GtkSymbol_init ?s (3, 4) (3, 10)))
          (maximum_gtk_version (GtkSymbol_init ?s (3, 4) (3, 10)))"
    by blast
  with db rec example_keys(1,2) show ?thesis by blast
qed

end
